theory Spec2Isabelle
  imports Main "HOL-Library.AList" "HOL-Library.Sublist"
begin

section \<open>Python values, HTTP and the transport\<close>

text \<open>
  Exceptions are values. The classes are the ones the \<^verbatim>\<open>except\<close> clauses of the
  source tell apart: \<^verbatim>\<open>requests.RequestException\<close> (with its subclasses, also those
  that are a \<^verbatim>\<open>ValueError\<close> too, such as \<^verbatim>\<open>InvalidURL\<close>), a \<^verbatim>\<open>ValueError\<close> that
  is no request exception, the \<^verbatim>\<open>KeyError\<close> of pandas, the selector syntax error of
  the CSS library, and any other exception.
\<close>

datatype exn = RequestException | ValueError | KeyError | SelectorSyntaxError | OtherException

text \<open>
  Strings are byte strings, the UTF-8 encoding of Python's text.
  \<^verbatim>\<open>needle in haystack\<close> of Python:
\<close>

fun contains :: "string \<Rightarrow> string \<Rightarrow> bool" where
  "contains needle [] = (needle = [])"
| "contains needle (c # cs) = (prefix needle (c # cs) \<or> contains needle cs)"

text \<open>
  A Python \<^verbatim>\<open>str\<close> is modelled by its UTF-8 encoding. \<^verbatim>\<open>str.strip()\<close> removes leading
  and trailing whitespace, that is, the characters for which \<^verbatim>\<open>str.isspace\<close> holds:
  U+0009 to U+000D, U+001C to U+0020, U+0085, U+00A0, U+1680, U+2000 to U+200A, U+2028,
  U+2029, U+202F, U+205F and U+3000. \<open>whitespace\<close> lists their encodings. In UTF-8 no
  encoding of a character is a prefix or a suffix of the encoding of another, so
  removing these byte sequences from both ends removes exactly these characters.
\<close>

definition whitespace :: "string list" where
  "whitespace =
    [[CHR 0x09], [CHR 0x0A], [CHR 0x0B], [CHR 0x0C], [CHR 0x0D],
     [CHR 0x1C], [CHR 0x1D], [CHR 0x1E], [CHR 0x1F], [CHR 0x20],
     [CHR 0xC2, CHR 0x85], [CHR 0xC2, CHR 0xA0],
     [CHR 0xE1, CHR 0x9A, CHR 0x80],
     [CHR 0xE2, CHR 0x80, CHR 0x80], [CHR 0xE2, CHR 0x80, CHR 0x81],
     [CHR 0xE2, CHR 0x80, CHR 0x82], [CHR 0xE2, CHR 0x80, CHR 0x83],
     [CHR 0xE2, CHR 0x80, CHR 0x84], [CHR 0xE2, CHR 0x80, CHR 0x85],
     [CHR 0xE2, CHR 0x80, CHR 0x86], [CHR 0xE2, CHR 0x80, CHR 0x87],
     [CHR 0xE2, CHR 0x80, CHR 0x88], [CHR 0xE2, CHR 0x80, CHR 0x89],
     [CHR 0xE2, CHR 0x80, CHR 0x8A],
     [CHR 0xE2, CHR 0x80, CHR 0xA8], [CHR 0xE2, CHR 0x80, CHR 0xA9],
     [CHR 0xE2, CHR 0x80, CHR 0xAF],
     [CHR 0xE2, CHR 0x81, CHR 0x9F],
     [CHR 0xE3, CHR 0x80, CHR 0x80]]"

text \<open>Remove from the front of \<open>s\<close>, as long as there is one, a sequence listed in \<open>ws\<close>.\<close>

function lstrip_with :: "string list \<Rightarrow> string \<Rightarrow> string" where
  "lstrip_with ws s =
    (case List.find (\<lambda>w. w \<noteq> [] \<and> prefix w s) ws of
       None \<Rightarrow> s
     | Some w \<Rightarrow> lstrip_with ws (drop (length w) s))"
  by pat_completeness auto
termination
proof (relation "measure (\<lambda>(ws, s). length s)")
  show "wf (measure (\<lambda>(ws, s). length s))" by simp
next
  fix ws :: "string list" and s w :: string
  assume "List.find (\<lambda>w. w \<noteq> [] \<and> prefix w s) ws = Some w"
  then have "w \<noteq> []" and "prefix w s"
    by (auto simp add: find_Some_iff)
  then have "length (drop (length w) s) < length s"
    by (cases w) (auto dest: prefix_length_le)
  then show "((ws, drop (length w) s), (ws, s)) \<in> measure (\<lambda>(ws, s). length s)"
    by simp
qed

declare lstrip_with.simps [simp del]

definition strip :: "string \<Rightarrow> string" where
  "strip s = rev (lstrip_with (map rev whitespace) (rev (lstrip_with whitespace s)))"

text \<open>\<^verbatim>\<open>dict.setdefault(k, v)\<close> on an insertion-ordered dictionary (the dictionary after the call).\<close>

definition setdefault :: "('k \<times> 'v) list \<Rightarrow> 'k \<Rightarrow> 'v \<Rightarrow> ('k \<times> 'v) list" where
  "setdefault d k v = (case map_of d k of None \<Rightarrow> d @ [(k, v)] | Some _ \<Rightarrow> d)"

datatype http_method = GET | POST

text \<open>
  A request as the source issues it: \<open>req_session\<close> tells a request made through the
  \<^verbatim>\<open>requests.Session\<close> of an auth object from a plain \<^verbatim>\<open>requests.get\<close>;
  \<open>req_timeout\<close> is the \<^verbatim>\<open>timeout=\<close> argument, \<open>None\<close> when the call passes none.
\<close>

record request =
  req_method :: http_method
  req_url :: string
  req_headers :: "(string \<times> string) list"
  req_data :: "(string \<times> string) list"
  req_timeout :: "nat option"
  req_session :: bool

record response =
  status_code :: int
  resp_text :: string
  resp_content :: string

text \<open>\<^verbatim>\<open>Response.ok\<close> of requests: \<^verbatim>\<open>raise_for_status\<close> raises for 400 to 599 only.\<close>

definition ok :: "response \<Rightarrow> bool" where
  "ok r = (\<not> (400 \<le> status_code r \<and> status_code r < 600))"

text \<open>
  The network (servers, cookies, time) is a state \<open>'w\<close> that every request reads and
  changes; a request either raises or gives a response. The transport state adds the
  number of requests sent so far.
\<close>

type_synonym 'w network = "'w \<Rightarrow> request \<Rightarrow> (exn + response) \<times> 'w"

type_synonym 'w transport = "'w \<times> nat"

definition send :: "'w network \<Rightarrow> request \<Rightarrow> 'w transport \<Rightarrow> (exn + response) \<times> 'w transport" where
  "send net req t = (case net (fst t) req of (out, w') \<Rightarrow> (out, (w', Suc (snd t))))"

definition calls :: "'w transport \<Rightarrow> nat" where
  "calls t = snd t"

section \<open>auth.py: class CNC1Auth\<close>

definition LOGIN_URL :: string where
  "LOGIN_URL = ''https://cnc1.ru/auth/?login=yes''"

definition USER_AGENT :: string where
  "USER_AGENT = ''Mozilla/5.0 (Windows NT 10.0; Win64; x64) AppleWebKit/537.36 (KHTML, like Gecko) Chrome/138.0.0.0 Safari/537.36''"

definition HEADERS :: "(string \<times> string) list" where
  "HEADERS =
    [(''Content-Type'', ''application/x-www-form-urlencoded; charset=UTF-8''),
     (''X-Requested-With'', ''XMLHttpRequest''),
     (''User-Agent'', USER_AGENT),
     (''Referer'', ''https://cnc1.ru/?login=yes'')]"

text \<open>The failure marker of the login page, the Russian word for "error", in UTF-8.\<close>

definition failure_marker :: string where
  "failure_marker =
    [CHR 0xD0, CHR 0x9E, CHR 0xD1, CHR 0x88, CHR 0xD0, CHR 0xB8,
     CHR 0xD0, CHR 0xB1, CHR 0xD0, CHR 0xBA, CHR 0xD0, CHR 0xB0]"

record CNC1Auth =
  username :: string
  password :: string
  priv_is_authenticated :: bool

definition CNC1Auth_init :: "string \<Rightarrow> string \<Rightarrow> CNC1Auth" where
  "CNC1Auth_init u p = \<lparr>username = u, password = p, priv_is_authenticated = False\<rparr>"

definition login_payload :: "CNC1Auth \<Rightarrow> (string \<times> string) list" where
  "login_payload self =
    [(''backurl'', ''/?login=yes''),
     (''AUTH_FORM'', ''Y''),
     (''TYPE'', ''AUTH''),
     (''POPUP_AUTH'', ''Y''),
     (''AUTH_TYPE'', ''login''),
     (''USER_LOGIN'', username self),
     (''USER_PASSWORD'', password self),
     (''Login'', ''Y'')]"

definition login_request :: "CNC1Auth \<Rightarrow> request" where
  "login_request self =
    \<lparr>req_method = POST, req_url = LOGIN_URL, req_headers = HEADERS,
     req_data = login_payload self, req_timeout = None, req_session = True\<rparr>"

text \<open>
  \<^verbatim>\<open>login\<close> has no \<^verbatim>\<open>try\<close>: an exception of \<^verbatim>\<open>session.post\<close> leaves the method as
  it is, with the object unchanged.
\<close>

definition CNC1Auth_login ::
  "'w network \<Rightarrow> CNC1Auth \<Rightarrow> 'w transport \<Rightarrow> (exn + bool) \<times> CNC1Auth \<times> 'w transport" where
  "CNC1Auth_login net self t =
    (case send net (login_request self) t of
       (Inl e, t') \<Rightarrow> (Inl e, self, t')
     | (Inr response, t') \<Rightarrow>
         if status_code response = 200 \<and> \<not> contains failure_marker (resp_text response)
         then (Inr True, self\<lparr>priv_is_authenticated := True\<rparr>, t')
         else (Inr False, self, t'))"

text \<open>The keyword arguments of \<^verbatim>\<open>get\<close> that the model keeps: \<^verbatim>\<open>headers\<close> and \<^verbatim>\<open>timeout\<close>.\<close>

record kwargs =
  kw_headers :: "(string \<times> string) list option"
  kw_timeout :: "nat option"

definition no_kwargs :: kwargs where
  "no_kwargs = \<lparr>kw_headers = None, kw_timeout = None\<rparr>"

definition get_request :: "string \<Rightarrow> kwargs \<Rightarrow> request" where
  "get_request url kw =
    (let headers = (case kw_headers kw of None \<Rightarrow> [] | Some h \<Rightarrow> h);
         headers' = setdefault headers ''User-Agent'' USER_AGENT
     in \<lparr>req_method = GET, req_url = url, req_headers = headers',
         req_data = [], req_timeout = kw_timeout kw, req_session = True\<rparr>)"

definition CNC1Auth_get ::
  "'w network \<Rightarrow> CNC1Auth \<Rightarrow> string \<Rightarrow> kwargs \<Rightarrow> 'w transport
     \<Rightarrow> (exn + response option) \<times> 'w transport" where
  "CNC1Auth_get net self url kw t =
    (if \<not> priv_is_authenticated self then (Inr None, t)
     else (case send net (get_request url kw) t of
             (Inl e, t') \<Rightarrow> (Inl e, t')
           | (Inr response, t') \<Rightarrow> (Inr (Some response), t')))"

definition is_authenticated :: "CNC1Auth \<Rightarrow> bool" where
  "is_authenticated self = priv_is_authenticated self"

text \<open>
  \<^verbatim>\<open>get_session\<close> gives the session only when authenticated; the session itself
  lives in the network state, so the model returns whether it is handed out.
\<close>

definition get_session :: "CNC1Auth \<Rightarrow> unit option" where
  "get_session self = (if priv_is_authenticated self then Some () else None)"

text \<open>A client of one auth object: any sequence of calls of its four methods.\<close>

datatype auth_call = CallLogin | CallGet string kwargs | CallIsAuthenticated | CallGetSession

fun auth_call_step ::
  "'w network \<Rightarrow> CNC1Auth \<times> 'w transport \<Rightarrow> auth_call \<Rightarrow> CNC1Auth \<times> 'w transport" where
  "auth_call_step net (self, t) CallLogin = snd (CNC1Auth_login net self t)"
| "auth_call_step net (self, t) (CallGet url kw) = (self, snd (CNC1Auth_get net self url kw t))"
| "auth_call_step net (self, t) CallIsAuthenticated = (self, t)"
| "auth_call_step net (self, t) CallGetSession = (self, t)"

definition auth_calls ::
  "'w network \<Rightarrow> auth_call list \<Rightarrow> CNC1Auth \<times> 'w transport \<Rightarrow> CNC1Auth \<times> 'w transport" where
  "auth_calls net cs st = foldl (auth_call_step net) st cs"

text \<open>The success class of HTTP status codes, as the specification names it: 2xx.\<close>

definition spec_success_class :: "response \<Rightarrow> bool" where
  "spec_success_class r = (200 \<le> status_code r \<and> status_code r < 300)"

section \<open>The libraries the parsers call\<close>

text \<open>
  The HTML library (BeautifulSoup with its CSS selector engine) and \<^verbatim>\<open>urljoin\<close> are
  parameters: \<open>'soup\<close> is a parsed document, \<open>'el\<close> an element of it.
  \<open>lib_select\<close> is \<^verbatim>\<open>soup.select(selector)\<close>, the matching elements in document
  order, or the error of a selector the engine cannot compile; \<open>lib_find_h1\<close> is
  \<^verbatim>\<open>soup.find('h1')\<close>; \<open>lib_get_text\<close> is \<^verbatim>\<open>el.get_text(strip=True)\<close>;
  \<open>lib_get_href\<close> is \<^verbatim>\<open>el.get('href')\<close>; \<open>lib_urljoin\<close> is
  \<^verbatim>\<open>urllib.parse.urljoin\<close>, which raises \<^verbatim>\<open>ValueError\<close> on some malformed references.
\<close>

record ('soup, 'el) libs =
  lib_BeautifulSoup :: "string \<Rightarrow> 'soup"
  lib_select :: "'soup \<Rightarrow> string \<Rightarrow> exn + 'el list"
  lib_find_h1 :: "'soup \<Rightarrow> 'el option"
  lib_get_text :: "'el \<Rightarrow> string"
  lib_get_href :: "'el \<Rightarrow> string option"
  lib_urljoin :: "string \<Rightarrow> string \<Rightarrow> exn + string"

text \<open>\<^verbatim>\<open>soup.select_one(selector)\<close> is the first element of \<^verbatim>\<open>soup.select(selector)\<close>.\<close>

definition select_one :: "('soup, 'el) libs \<Rightarrow> 'soup \<Rightarrow> string \<Rightarrow> exn + 'el option" where
  "select_one lib soup selector =
    (case lib_select lib soup selector of
       Inl e \<Rightarrow> Inl e
     | Inr [] \<Rightarrow> Inr None
     | Inr (el # _) \<Rightarrow> Inr (Some el))"

text \<open>The constructor argument \<^verbatim>\<open>urls: Union[str, List[str]]\<close> of both parsers.\<close>

datatype urls_arg = OneUrl string | UrlList "string list"

definition as_url_list :: "urls_arg \<Rightarrow> string list" where
  "as_url_list urls = (case urls of OneUrl u \<Rightarrow> [u] | UrlList us \<Rightarrow> us)"

definition plain_get_request :: "string \<Rightarrow> nat option \<Rightarrow> request" where
  "plain_get_request url timeout =
    \<lparr>req_method = GET, req_url = url, req_headers = [], req_data = [],
     req_timeout = timeout, req_session = False\<rparr>"

text \<open>\<^verbatim>\<open>requests.get(url)\<close> and \<^verbatim>\<open>requests.get(url, timeout=n)\<close>.\<close>

definition requests_get ::
  "'w network \<Rightarrow> string \<Rightarrow> nat option \<Rightarrow> 'w transport \<Rightarrow> (exn + response option) \<times> 'w transport" where
  "requests_get net url timeout t =
    (case send net (plain_get_request url timeout) t of
       (Inl e, t') \<Rightarrow> (Inl e, t')
     | (Inr response, t') \<Rightarrow> (Inr (Some response), t'))"

section \<open>catalog_parser.py: class CatalogParser\<close>

record CatalogParser =
  cp_urls :: "string list"
  cp_link_selector :: string
  cp_auth :: "CNC1Auth option"
  cp_result :: "(string \<times> string list) list"

definition CatalogParser_init :: "urls_arg \<Rightarrow> string \<Rightarrow> CNC1Auth option \<Rightarrow> CatalogParser" where
  "CatalogParser_init urls link_selector auth =
    \<lparr>cp_urls = as_url_list urls, cp_link_selector = link_selector,
     cp_auth = auth, cp_result = []\<rparr>"

definition CatalogParser_fetch_page ::
  "'w network \<Rightarrow> CatalogParser \<Rightarrow> string \<Rightarrow> 'w transport
     \<Rightarrow> (exn + response option) \<times> 'w transport" where
  "CatalogParser_fetch_page net self url t =
    (case (case cp_auth self of
             Some a \<Rightarrow> if is_authenticated a then CNC1Auth_get net a url no_kwargs t
                       else requests_get net url (Some 10) t
           | None \<Rightarrow> requests_get net url (Some 10) t) of
       (Inl e, t') \<Rightarrow> if e = RequestException then (Inr None, t') else (Inl e, t')
     | (Inr response, t') \<Rightarrow> (Inr response, t'))"

definition CatalogParser_get_page_key :: "('soup, 'el) libs \<Rightarrow> 'soup \<Rightarrow> string \<Rightarrow> string" where
  "CatalogParser_get_page_key lib soup url =
    (case lib_find_h1 lib soup of Some h1_tag \<Rightarrow> lib_get_text lib h1_tag | None \<Rightarrow> url)"

fun extract_links_loop ::
  "('soup, 'el) libs \<Rightarrow> string \<Rightarrow> 'el list \<Rightarrow> string list \<Rightarrow> exn + string list" where
  "extract_links_loop lib base_url [] links = Inr links"
| "extract_links_loop lib base_url (el # els) links =
    (case lib_get_href lib el of
       None \<Rightarrow> extract_links_loop lib base_url els links
     | Some href \<Rightarrow>
         (let href_str = strip href in
          if href_str \<noteq> [] then
            (case lib_urljoin lib base_url href_str of
               Inl e \<Rightarrow> Inl e
             | Inr absolute_url \<Rightarrow> extract_links_loop lib base_url els (links @ [absolute_url]))
          else extract_links_loop lib base_url els links))"

definition CatalogParser_extract_links ::
  "('soup, 'el) libs \<Rightarrow> CatalogParser \<Rightarrow> 'soup \<Rightarrow> string \<Rightarrow> exn + string list" where
  "CatalogParser_extract_links lib self soup base_url =
    (case lib_select lib soup (cp_link_selector self) of
       Inl e \<Rightarrow> Inl e
     | Inr elements \<Rightarrow> extract_links_loop lib base_url elements [])"

definition CatalogParser_add_empty_result :: "CatalogParser \<Rightarrow> string \<Rightarrow> CatalogParser" where
  "CatalogParser_add_empty_result self url =
    self\<lparr>cp_result := AList.update url [] (cp_result self)\<rparr>"

text \<open>
  The loop of \<^verbatim>\<open>parse\<close>: the first component is the exception that left the loop, if
  any; the object and the transport are as the loop left them.
\<close>

fun CatalogParser_parse_loop ::
  "('soup, 'el) libs \<Rightarrow> 'w network \<Rightarrow> string list \<Rightarrow> CatalogParser \<Rightarrow> 'w transport
     \<Rightarrow> exn option \<times> CatalogParser \<times> 'w transport" where
  "CatalogParser_parse_loop lib net [] self t = (None, self, t)"
| "CatalogParser_parse_loop lib net (url # urls) self t =
    (case CatalogParser_fetch_page net self url t of
       (Inl e, t') \<Rightarrow> (Some e, self, t')
     | (Inr None, t') \<Rightarrow>
         CatalogParser_parse_loop lib net urls (CatalogParser_add_empty_result self url) t'
     | (Inr (Some response), t') \<Rightarrow>
         if status_code response \<noteq> 200
         then CatalogParser_parse_loop lib net urls (CatalogParser_add_empty_result self url) t'
         else (let soup = lib_BeautifulSoup lib (resp_content response);
                   key = CatalogParser_get_page_key lib soup url
               in case CatalogParser_extract_links lib self soup url of
                    Inl e \<Rightarrow> (Some e, self, t')
                  | Inr links \<Rightarrow>
                      CatalogParser_parse_loop lib net urls
                        (self\<lparr>cp_result := AList.update key links (cp_result self)\<rparr>) t'))"

definition CatalogParser_parse ::
  "('soup, 'el) libs \<Rightarrow> 'w network \<Rightarrow> CatalogParser \<Rightarrow> 'w transport
     \<Rightarrow> (exn + (string \<times> string list) list) \<times> CatalogParser \<times> 'w transport" where
  "CatalogParser_parse lib net self t =
    (case CatalogParser_parse_loop lib net (cp_urls self) self t of
       (Some e, self', t') \<Rightarrow> (Inl e, self', t')
     | (None, self', t') \<Rightarrow> (Inr (cp_result self'), self', t'))"

section \<open>pandas: the part of DataFrame that page_parser.py uses\<close>

text \<open>
  A row of \<^verbatim>\<open>self.data\<close> is an insertion-ordered dictionary from column names to
  \<^verbatim>\<open>Optional[str]\<close>. \<^verbatim>\<open>pd.DataFrame(rows)\<close> takes as columns the keys of the rows in
  the order of their first appearance, fills a key a row lacks with NaN, and numbers
  the rows. \<^verbatim>\<open>df.set_index(key)\<close> raises \<^verbatim>\<open>KeyError\<close> when \<open>key\<close> is no column;
  otherwise that column becomes the index and leaves the columns.
\<close>

type_synonym row = "(string \<times> string option) list"

datatype cell = Str string | PyNone | NaN

datatype label = RangeLabel nat | CellLabel cell

record dataframe =
  df_index_name :: "string option"
  df_index :: "label list"
  df_columns :: "string list"
  df_values :: "cell list list"

definition cell_of :: "string option option \<Rightarrow> cell" where
  "cell_of v = (case v of None \<Rightarrow> NaN | Some None \<Rightarrow> PyNone | Some (Some s) \<Rightarrow> Str s)"

definition column_union :: "row list \<Rightarrow> string list" where
  "column_union rows =
    foldl (\<lambda>cols k. if k \<in> set cols then cols else cols @ [k]) [] (concat (map (map fst) rows))"

definition DataFrame :: "row list \<Rightarrow> dataframe" where
  "DataFrame rows =
    (let cols = column_union rows
     in \<lparr>df_index_name = None,
         df_index = map RangeLabel [0..<length rows],
         df_columns = cols,
         df_values = map (\<lambda>r. map (\<lambda>c. cell_of (map_of r c)) cols) rows\<rparr>)"

definition set_index :: "dataframe \<Rightarrow> string \<Rightarrow> exn + dataframe" where
  "set_index df key =
    (if key \<notin> set (df_columns df) then Inl KeyError
     else Inr
       \<lparr>df_index_name = Some key,
        df_index =
          map (\<lambda>r. CellLabel (case map_of (zip (df_columns df) r) key of
                                 None \<Rightarrow> NaN | Some v \<Rightarrow> v)) (df_values df),
        df_columns = filter (\<lambda>c. c \<noteq> key) (df_columns df),
        df_values =
          map (\<lambda>r. map snd (filter (\<lambda>cv. fst cv \<noteq> key) (zip (df_columns df) r)))
            (df_values df)\<rparr>)"

section \<open>page_parser.py: class PageParser\<close>

record PageParser =
  pp_urls :: "string list"
  pp_selectors :: "(string \<times> string) list"
  pp_auth :: "CNC1Auth option"
  pp_data :: "row list"

definition PageParser_init ::
  "urls_arg \<Rightarrow> (string \<times> string) list \<Rightarrow> CNC1Auth option \<Rightarrow> PageParser" where
  "PageParser_init urls selectors auth =
    \<lparr>pp_urls = as_url_list urls, pp_selectors = selectors, pp_auth = auth, pp_data = []\<rparr>"

definition PageParser_fetch_page ::
  "'w network \<Rightarrow> PageParser \<Rightarrow> string \<Rightarrow> 'w transport
     \<Rightarrow> (exn + response option) \<times> 'w transport" where
  "PageParser_fetch_page net self url t =
    (case (case pp_auth self of
             Some a \<Rightarrow> if is_authenticated a then CNC1Auth_get net a url no_kwargs t
                       else requests_get net url None t
           | None \<Rightarrow> requests_get net url None t) of
       (Inl e, t') \<Rightarrow>
         if e = RequestException \<or> e = ValueError then (Inr None, t') else (Inl e, t')
     | (Inr response, t') \<Rightarrow> (Inr response, t'))"

text \<open>The loop of \<^verbatim>\<open>_parse_page\<close> over \<^verbatim>\<open>self.selectors.items()\<close>.\<close>

fun parse_fields ::
  "('soup, 'el) libs \<Rightarrow> 'soup \<Rightarrow> (string \<times> string) list \<Rightarrow> row \<Rightarrow> exn + row" where
  "parse_fields lib soup [] row = Inr row"
| "parse_fields lib soup ((col_name, selector) # items) row =
    (case select_one lib soup selector of
       Inl e \<Rightarrow> Inl e
     | Inr element \<Rightarrow>
         parse_fields lib soup items
           (AList.update col_name
              (case element of Some el \<Rightarrow> Some (lib_get_text lib el) | None \<Rightarrow> None) row))"

definition parsed_row ::
  "('soup, 'el) libs \<Rightarrow> (string \<times> string) list \<Rightarrow> string \<Rightarrow> response \<Rightarrow> exn + row" where
  "parsed_row lib selectors url response =
    (let soup = lib_BeautifulSoup lib (resp_content response)
     in parse_fields lib soup selectors [(''URL'', Some url)])"

definition PageParser_parse_page ::
  "('soup, 'el) libs \<Rightarrow> PageParser \<Rightarrow> string \<Rightarrow> response \<Rightarrow> exn + PageParser" where
  "PageParser_parse_page lib self url response =
    (case parsed_row lib (pp_selectors self) url response of
       Inl e \<Rightarrow> Inl e
     | Inr row \<Rightarrow> Inr (self\<lparr>pp_data := pp_data self @ [row]\<rparr>))"

text \<open>\<^verbatim>\<open>row = {'URL': url}; row.update({col: None for col in self.selectors})\<close>\<close>

definition empty_row :: "(string \<times> string) list \<Rightarrow> string \<Rightarrow> row" where
  "empty_row selectors url =
    foldl (\<lambda>row col. AList.update col None row) [(''URL'', Some url)] (map fst selectors)"

definition PageParser_add_empty_row :: "PageParser \<Rightarrow> string \<Rightarrow> PageParser" where
  "PageParser_add_empty_row self url =
    self\<lparr>pp_data := pp_data self @ [empty_row (pp_selectors self) url]\<rparr>"

definition PageParser_build_dataframe :: "PageParser \<Rightarrow> exn + dataframe" where
  "PageParser_build_dataframe self = (let df = DataFrame (pp_data self) in set_index df ''URL'')"

fun PageParser_parse_loop ::
  "('soup, 'el) libs \<Rightarrow> 'w network \<Rightarrow> string list \<Rightarrow> PageParser \<Rightarrow> 'w transport
     \<Rightarrow> exn option \<times> PageParser \<times> 'w transport" where
  "PageParser_parse_loop lib net [] self t = (None, self, t)"
| "PageParser_parse_loop lib net (url # urls) self t =
    (case PageParser_fetch_page net self url t of
       (Inl e, t') \<Rightarrow> (Some e, self, t')
     | (Inr None, t') \<Rightarrow>
         PageParser_parse_loop lib net urls (PageParser_add_empty_row self url) t'
     | (Inr (Some response), t') \<Rightarrow>
         if \<not> ok response
         then PageParser_parse_loop lib net urls (PageParser_add_empty_row self url) t'
         else (case PageParser_parse_page lib self url response of
                 Inl e \<Rightarrow> (Some e, self, t')
               | Inr self' \<Rightarrow> PageParser_parse_loop lib net urls self' t'))"

definition PageParser_parse ::
  "('soup, 'el) libs \<Rightarrow> 'w network \<Rightarrow> PageParser \<Rightarrow> 'w transport
     \<Rightarrow> (exn + dataframe) \<times> PageParser \<times> 'w transport" where
  "PageParser_parse lib net self t =
    (case PageParser_parse_loop lib net (pp_urls self) self t of
       (Some e, self', t') \<Rightarrow> (Inl e, self', t')
     | (None, self', t') \<Rightarrow> (PageParser_build_dataframe self', self', t'))"

section \<open>Vocabulary of the statements\<close>


text \<open>What the loop body of \<^verbatim>\<open>PageParser.parse\<close> appends for a URL and the result of its fetch.\<close>

definition page_record ::
  "('soup, 'el) libs \<Rightarrow> (string \<times> string) list \<Rightarrow> string \<Rightarrow> response option \<Rightarrow> exn + row" where
  "page_record lib selectors url out =
    (case out of
       None \<Rightarrow> Inr (empty_row selectors url)
     | Some response \<Rightarrow>
         if \<not> ok response then Inr (empty_row selectors url)
         else parsed_row lib selectors url response)"

section \<open>urllib.parse.urljoin\<close>

text \<open>
  A model of the standard library's \<^verbatim>\<open>urljoin\<close> (CPython 3.11,
  \<^verbatim>\<open>Lib/urllib/parse.py\<close>) for the worked examples of link resolution:
  \<^verbatim>\<open>urlsplit\<close>, \<^verbatim>\<open>urlparse\<close>, \<^verbatim>\<open>urlunparse\<close> and the resolution of dot segments.
  The model is partial. It answers \<open>None\<close> unless its arguments consist of printable
  ASCII characters (0x21 to 0x7E) and do not hold both an opening and a closing square
  bracket: on such arguments the library strips no control character or space, removes
  no tab or line break, validates no bracketed host and checks no non-ASCII host, and
  what is left of it is what the model computes.
\<close>

definition in_domain :: "string \<Rightarrow> bool" where
  "in_domain s =
    (list_all (\<lambda>c. 0x21 \<le> (of_char c :: nat) \<and> (of_char c :: nat) \<le> 0x7E) s \<and>
     \<not> (CHR ''['' \<in> set s \<and> CHR '']'' \<in> set s))"

definition uses_relative :: "string list" where
  "uses_relative = ['''', ''ftp'', ''http'', ''gopher'', ''nntp'', ''imap'', ''wais'', ''file'',
     ''https'', ''shttp'', ''mms'', ''prospero'', ''rtsp'', ''rtspu'', ''sftp'', ''svn'',
     ''svn+ssh'', ''ws'', ''wss'']"

definition uses_netloc :: "string list" where
  "uses_netloc = ['''', ''ftp'', ''http'', ''gopher'', ''nntp'', ''telnet'', ''imap'', ''wais'',
     ''file'', ''mms'', ''https'', ''shttp'', ''snews'', ''prospero'', ''rtsp'', ''rtspu'',
     ''rsync'', ''svn'', ''svn+ssh'', ''sftp'', ''nfs'', ''git'', ''git+ssh'', ''ws'', ''wss'']"

definition uses_params :: "string list" where
  "uses_params = ['''', ''ftp'', ''hdl'', ''prospero'', ''http'', ''imap'', ''https'', ''shttp'',
     ''rtsp'', ''rtspu'', ''sip'', ''sips'', ''mms'', ''sftp'', ''tel'']"

definition ascii_lowercase :: string where
  "ascii_lowercase = ''abcdefghijklmnopqrstuvwxyz''"

definition ascii_uppercase :: string where
  "ascii_uppercase = ''ABCDEFGHIJKLMNOPQRSTUVWXYZ''"

definition scheme_chars :: string where
  "scheme_chars = ascii_lowercase @ ascii_uppercase @ ''0123456789+-.''"

definition lower_char :: "char \<Rightarrow> char" where
  "lower_char c = (case map_of (zip ascii_uppercase ascii_lowercase) c of Some l \<Rightarrow> l | None \<Rightarrow> c)"

text \<open>\<^verbatim>\<open>s.split(c, 1)\<close> for a string that contains \<open>c\<close>; \<^verbatim>\<open>s.split(c)\<close>; \<^verbatim>\<open>c.join(parts)\<close>.\<close>

definition split_once :: "char \<Rightarrow> string \<Rightarrow> string \<times> string" where
  "split_once c s = (takeWhile (\<lambda>x. x \<noteq> c) s, drop 1 (dropWhile (\<lambda>x. x \<noteq> c) s))"

fun split_on :: "char \<Rightarrow> string \<Rightarrow> string list" where
  "split_on c [] = [[]]"
| "split_on c (x # xs) =
    (if x = c then [] # split_on c xs
     else (case split_on c xs of [] \<Rightarrow> [[x]] | p # ps \<Rightarrow> (x # p) # ps))"

fun join_with :: "char \<Rightarrow> string list \<Rightarrow> string" where
  "join_with c [] = []"
| "join_with c [p] = p"
| "join_with c (p # q # ps) = p @ c # join_with c (q # ps)"

text \<open>
  \<^verbatim>\<open>urlsplit(url, scheme)\<close>: \<open>None\<close> outside the domain of the model, the
  \<^verbatim>\<open>ValueError\<close> of a host with one square bracket only, or the five components.
\<close>

definition urlsplit ::
  "string \<Rightarrow> string \<Rightarrow> (exn + string \<times> string \<times> string \<times> string \<times> string) option" where
  "urlsplit url0 scheme0 =
    (if \<not> (in_domain url0 \<and> in_domain scheme0) then None
     else Some
      (let pre = takeWhile (\<lambda>c. c \<noteq> CHR '':'') url0;
           has_scheme = (CHR '':'' \<in> set url0 \<and> pre \<noteq> [] \<and>
                         hd pre \<in> set (ascii_lowercase @ ascii_uppercase) \<and>
                         list_all (\<lambda>c. c \<in> set scheme_chars) pre);
           scheme = (if has_scheme then map lower_char pre else scheme0);
           url1 = (if has_scheme then drop (Suc (length pre)) url0 else url0);
           has_netloc = (take 2 url1 = ''//'');
           netloc = (if has_netloc then takeWhile (\<lambda>c. c \<notin> set ''/?#'') (drop 2 url1) else []);
           url2 = (if has_netloc then dropWhile (\<lambda>c. c \<notin> set ''/?#'') (drop 2 url1) else url1)
       in if (CHR ''['' \<in> set netloc \<and> CHR '']'' \<notin> set netloc) \<or>
             (CHR '']'' \<in> set netloc \<and> CHR ''['' \<notin> set netloc)
          then Inl ValueError
          else (let has_fragment = (CHR ''#'' \<in> set url2);
                    url3 = (if has_fragment then fst (split_once (CHR ''#'') url2) else url2);
                    fragment = (if has_fragment then snd (split_once (CHR ''#'') url2) else []);
                    has_query = (CHR ''?'' \<in> set url3);
                    url4 = (if has_query then fst (split_once (CHR ''?'') url3) else url3);
                    query = (if has_query then snd (split_once (CHR ''?'') url3) else [])
                in Inr (scheme, netloc, url4, query, fragment))))"

text \<open>
  \<^verbatim>\<open>_splitparams\<close>, called only on a path that contains a semicolon: the parameters
  start at the first semicolon of the last path segment.
\<close>

definition splitparams :: "string \<Rightarrow> string \<times> string" where
  "splitparams url =
    (let seg = rev (takeWhile (\<lambda>c. c \<noteq> CHR ''/'') (rev url));
         dir = take (length url - length seg) url
     in if CHR '';'' \<in> set seg then (dir @ fst (split_once (CHR '';'') seg), snd (split_once (CHR '';'') seg))
        else (url, []))"

definition urlparse ::
  "string \<Rightarrow> string
     \<Rightarrow> (exn + string \<times> string \<times> string \<times> string \<times> string \<times> string) option" where
  "urlparse url0 scheme0 =
    (case urlsplit url0 scheme0 of
       None \<Rightarrow> None
     | Some (Inl e) \<Rightarrow> Some (Inl e)
     | Some (Inr (scheme, netloc, url, query, fragment)) \<Rightarrow>
         if scheme \<in> set uses_params \<and> CHR '';'' \<in> set url
         then Some (Inr (scheme, netloc, fst (splitparams url), snd (splitparams url), query, fragment))
         else Some (Inr (scheme, netloc, url, [], query, fragment)))"

definition urlunsplit :: "string \<times> string \<times> string \<times> string \<times> string \<Rightarrow> string" where
  "urlunsplit parts =
    (case parts of (scheme, netloc, url, query, fragment) \<Rightarrow>
       (let url1 = (if netloc \<noteq> [] \<or> (scheme \<noteq> [] \<and> scheme \<in> set uses_netloc \<and> take 2 url \<noteq> ''//'')
                    then ''//'' @ netloc @ (if url \<noteq> [] \<and> take 1 url \<noteq> ''/'' then ''/'' @ url else url)
                    else url);
            url2 = (if scheme \<noteq> [] then scheme @ '':'' @ url1 else url1);
            url3 = (if query \<noteq> [] then url2 @ ''?'' @ query else url2)
        in if fragment \<noteq> [] then url3 @ ''#'' @ fragment else url3))"

definition urlunparse :: "string \<times> string \<times> string \<times> string \<times> string \<times> string \<Rightarrow> string" where
  "urlunparse parts =
    (case parts of (scheme, netloc, url, params, query, fragment) \<Rightarrow>
       urlunsplit (scheme, netloc, (if params \<noteq> [] then url @ '';'' @ params else url), query, fragment))"

text \<open>The loop of \<^verbatim>\<open>urljoin\<close> over the path segments: \<^verbatim>\<open>..\<close> pops, \<^verbatim>\<open>.\<close> is dropped.\<close>

fun resolve_segments :: "string list \<Rightarrow> string list \<Rightarrow> string list" where
  "resolve_segments [] resolved_path = resolved_path"
| "resolve_segments (seg # segs) resolved_path =
    (if seg = ''..'' then resolve_segments segs (butlast resolved_path)
     else if seg = ''.'' then resolve_segments segs resolved_path
     else resolve_segments segs (resolved_path @ [seg]))"

text \<open>
  The part of \<^verbatim>\<open>urljoin\<close> after both arguments are parsed: the six components of the
  base and of the reference give the joined URL.
\<close>

definition join_parsed ::
  "string \<Rightarrow> string \<times> string \<times> string \<times> string \<times> string \<times> string
     \<Rightarrow> string \<times> string \<times> string \<times> string \<times> string \<times> string \<Rightarrow> string" where
  "join_parsed url bparts parts =
    (case bparts of (bscheme, bnetloc, bpath, bparams, bquery, bfragment) \<Rightarrow>
     case parts of (scheme, netloc, path, params, query, fragment) \<Rightarrow>
       if scheme \<noteq> bscheme \<or> scheme \<notin> set uses_relative then url
       else if scheme \<in> set uses_netloc \<and> netloc \<noteq> []
       then urlunparse (scheme, netloc, path, params, query, fragment)
       else (let netloc' = (if scheme \<in> set uses_netloc then bnetloc else netloc)
             in if path = [] \<and> params = []
                then urlunparse (scheme, netloc', bpath, bparams,
                       (if query = [] then bquery else query), fragment)
                else (let base_parts0 = split_on (CHR ''/'') bpath;
                          base_parts = (if last base_parts0 \<noteq> [] then butlast base_parts0
                                        else base_parts0);
                          joined = base_parts @ split_on (CHR ''/'') path;
                          segments =
                            (if take 1 path = ''/'' then split_on (CHR ''/'') path
                             else take 1 joined @ filter (\<lambda>s. s \<noteq> []) (butlast (drop 1 joined))
                                  @ (if 2 \<le> length joined then [last joined] else []));
                          resolved0 = resolve_segments segments [];
                          resolved_path =
                            (if last segments = ''.'' \<or> last segments = ''..''
                             then resolved0 @ [[]] else resolved0);
                          new_path = join_with (CHR ''/'') resolved_path
                      in urlunparse (scheme, netloc',
                           (if new_path = [] then ''/'' else new_path),
                           params, query, fragment))))"

definition urljoin :: "string \<Rightarrow> string \<Rightarrow> (exn + string) option" where
  "urljoin base url =
    (if base = [] then Some (Inr url)
     else if url = [] then Some (Inr base)
     else (case urlparse base [] of
         None \<Rightarrow> None
       | Some (Inl e) \<Rightarrow> Some (Inl e)
       | Some (Inr bparts) \<Rightarrow>
       (case urlparse url (fst bparts) of
         None \<Rightarrow> None
       | Some (Inl e) \<Rightarrow> Some (Inl e)
       | Some (Inr parts) \<Rightarrow> Some (Inr (join_parsed url bparts parts)))))"

text \<open>
  The references that \<^verbatim>\<open>_extract_links\<close> resolves, in document order: the stripped
  \<^verbatim>\<open>href\<close> of every matched element that has one and whose \<^verbatim>\<open>href\<close> does not strip
  to the empty string.
\<close>

definition link_refs :: "('soup, 'el) libs \<Rightarrow> 'el list \<Rightarrow> string list" where
  "link_refs lib elements =
    concat (map (\<lambda>el. case lib_get_href lib el of
                         None \<Rightarrow> []
                       | Some href \<Rightarrow> if strip href \<noteq> [] then [strip href] else []) elements)"

text \<open>Whether a parser fetches through the session: a session is given and authenticated.\<close>

definition session_active :: "CNC1Auth option \<Rightarrow> bool" where
  "session_active auth = (case auth of Some a \<Rightarrow> is_authenticated a | None \<Rightarrow> False)"

section \<open>Concrete inputs\<close>

text \<open>
  A small HTML library for the worked examples: an element is the list of selectors
  that match it, its stripped text and its \<^verbatim>\<open>href\<close>; a document is the list of its
  elements in document order. The library knows four documents; where the model of
  \<^verbatim>\<open>urljoin\<close> gives no answer, the library raises. One anchor of the catalog page
  has an \<^verbatim>\<open>href\<close> that is an em space (U+2003).
\<close>

type_synonym demo_el = "string list \<times> string \<times> string option"

definition widget_html :: string where
  "widget_html = ''<h1>Widget</h1><span class=price>9.99</span>''"

definition widget_no_price_html :: string where
  "widget_no_price_html = ''<h1>Widget</h1>''"

definition catalog_html :: string where
  "catalog_html = ''<a href=c.html>c</a><a>n</a><a href= >e</a><a href=&emsp;>s</a><a href=/x>x</a><a href=https://other.com/y>y</a>''"

definition broken_link_html :: string where
  "broken_link_html = ''<a href=//[x>b</a>''"

definition demo_parse :: "string \<Rightarrow> demo_el list" where
  "demo_parse content =
    (if content = widget_html
       then [([''h1''], ''Widget'', None), ([''span'', ''.price''], ''9.99'', None)]
     else if content = widget_no_price_html
       then [([''h1''], ''Widget'', None)]
     else if content = catalog_html
       then [([''a''], ''c'', Some ''c.html''), ([''a''], ''n'', None), ([''a''], ''e'', Some '' ''),
             ([''a''], ''s'', Some [CHR 0xE2, CHR 0x80, CHR 0x83]),
             ([''a''], ''x'', Some ''/x''), ([''a''], ''y'', Some ''https://other.com/y'')]
     else if content = broken_link_html
       then [([''a''], ''b'', Some ''//[x'')]
     else [])"

definition demo_lib :: "(demo_el list, demo_el) libs" where
  "demo_lib =
    \<lparr>lib_BeautifulSoup = demo_parse,
     lib_select = (\<lambda>soup selector. Inr (filter (\<lambda>el. selector \<in> set (fst el)) soup)),
     lib_find_h1 = (\<lambda>soup. case filter (\<lambda>el. ''h1'' \<in> set (fst el)) soup of
                              [] \<Rightarrow> None | el # _ \<Rightarrow> Some el),
     lib_get_text = (\<lambda>el. fst (snd el)),
     lib_get_href = (\<lambda>el. snd (snd el)),
     lib_urljoin = (\<lambda>base ref. case urljoin base ref of
                                        Some joined \<Rightarrow> joined | None \<Rightarrow> Inl OtherException)\<rparr>"

text \<open>
  A site: \<open>p1\<close> is the widget page, \<open>p3\<close> is missing (404), \<open>p4\<close> answers 204,
  \<open>p5\<close> is a page with a malformed link, the catalog page lists links, the request
  for \<open>bad\<close> raises a \<^verbatim>\<open>ValueError\<close> that is no request exception; every other URL,
  \<open>p2\<close> among them, times out.
\<close>

definition site_net :: "unit network" where
  "site_net w req =
    (if req_url req = ''https://x.test/p1''
       then Inr \<lparr>status_code = 200, resp_text = widget_html, resp_content = widget_html\<rparr>
     else if req_url req = ''https://x.test/p3''
       then Inr \<lparr>status_code = 404, resp_text = ''not found'', resp_content = ''not found''\<rparr>
     else if req_url req = ''https://x.test/p4''
       then Inr \<lparr>status_code = 204, resp_text = widget_html, resp_content = widget_html\<rparr>
     else if req_url req = ''https://x.test/p5''
       then Inr \<lparr>status_code = 200, resp_text = broken_link_html, resp_content = broken_link_html\<rparr>
     else if req_url req = ''https://example.com/a/b''
       then Inr \<lparr>status_code = 200, resp_text = catalog_html, resp_content = catalog_html\<rparr>
     else if req_url req = ''https://x.test/bad''
       then Inl ValueError
     else Inl RequestException, w)"

text \<open>A server that answers once and is unreachable afterwards; the state counts the requests.\<close>

definition flaky_net :: "nat network" where
  "flaky_net w req =
    (if w = 0 then Inr \<lparr>status_code = 200, resp_text = ''welcome'', resp_content = ''welcome''\<rparr>
     else Inl RequestException, Suc w)"

text \<open>A slow server: a request with a timeout times out, a request without one gets the page.\<close>

definition slow_net :: "unit network" where
  "slow_net w req =
    (if req_timeout req = None
       then Inr \<lparr>status_code = 200, resp_text = widget_html, resp_content = widget_html\<rparr>
     else Inl RequestException, w)"

section \<open>Properties of CNC1Auth\<close>

lemma login_keeps_authenticated:
  "is_authenticated self \<Longrightarrow> is_authenticated (fst (snd (CNC1Auth_login net self t)))"
  by (auto simp add: CNC1Auth_login_def is_authenticated_def split: prod.splits sum.splits)

lemma auth_call_step_keeps:
  "is_authenticated (fst st) \<Longrightarrow> is_authenticated (fst (auth_call_step net st c))"
  by (cases st; cases c) (simp_all add: login_keeps_authenticated)

lemma auth_calls_keep:
  "is_authenticated (fst st) \<Longrightarrow> is_authenticated (fst (auth_calls net cs st))"
  unfolding auth_calls_def
  by (induction cs arbitrary: st) (simp_all add: auth_call_step_keeps)

lemma flaky_first_login:
  "auth_calls flaky_net [CallLogin] (CNC1Auth_init ''user'' ''secret'', (0, 0)) =
     ((CNC1Auth_init ''user'' ''secret'')\<lparr>priv_is_authenticated := True\<rparr>, (1, 1))"
  by (simp add: auth_calls_def CNC1Auth_login_def send_def flaky_net_def failure_marker_def)

text \<open>
  C3, as amended. \<^verbatim>\<open>login\<close> raises exactly the exception that the POST raises, if it
  raises one: a transport failure is not turned into \<open>False\<close>. It returns a boolean
  exactly when the POST completes with a response, and whenever it does not return
  \<open>True\<close> (it returned \<open>False\<close> or raised) the object is unchanged, so an
  unauthenticated session stays unauthenticated.
\<close>

theorem login_propagates_transport_failure:
  "(fst (CNC1Auth_login net self t) = Inl e \<longleftrightarrow> fst (net (fst t) (login_request self)) = Inl e) \<and>
   ((\<exists>b. fst (CNC1Auth_login net self t) = Inr b) \<longleftrightarrow>
      (\<exists>r. fst (net (fst t) (login_request self)) = Inr r)) \<and>
   (fst (CNC1Auth_login net self t) \<noteq> Inr True \<longrightarrow> fst (snd (CNC1Auth_login net self t)) = self)"
  by (auto simp add: CNC1Auth_login_def send_def split: prod.splits sum.splits)

text \<open>A refused login (status 403): \<open>False\<close> is returned and the object is unchanged.\<close>

theorem login_propagates_transport_failure_witness:
  "fst (CNC1Auth_login
          (\<lambda>w req. (Inr \<lparr>status_code = 403, resp_text = ''denied'', resp_content = ''denied''\<rparr>, w))
          (CNC1Auth_init ''user'' ''secret'') ((), 0)) \<noteq> Inr True \<and>
   fst (snd (CNC1Auth_login
          (\<lambda>w req. (Inr \<lparr>status_code = 403, resp_text = ''denied'', resp_content = ''denied''\<rparr>, w))
          (CNC1Auth_init ''user'' ''secret'') ((), 0))) = CNC1Auth_init ''user'' ''secret''"
proof -
  have h: "fst (CNC1Auth_login
          (\<lambda>w req. (Inr \<lparr>status_code = 403, resp_text = ''denied'', resp_content = ''denied''\<rparr>, w))
          (CNC1Auth_init ''user'' ''secret'') ((), 0)) \<noteq> Inr True"
    by (simp add: CNC1Auth_login_def send_def)
  from h login_propagates_transport_failure
    [of "\<lambda>w req. (Inr \<lparr>status_code = 403, resp_text = ''denied'', resp_content = ''denied''\<rparr>, w)"
      "CNC1Auth_init ''user'' ''secret''" "((), 0)" RequestException]
  show ?thesis by blast
qed

text \<open>
  C3 as stated fails: when the POST raises a request exception (the server is
  unreachable), \<^verbatim>\<open>login\<close> raises it instead of returning \<open>False\<close>.
\<close>

theorem login_raises_counterexample:
  "fst (CNC1Auth_login (\<lambda>w req. (Inl RequestException, w))
          (CNC1Auth_init ''user'' ''secret'') ((), 0)) = Inl RequestException"
  by (simp add: CNC1Auth_login_def send_def)

text \<open>
  C4, as amended. When the POST to the login endpoint completes with a response,
  \<^verbatim>\<open>login\<close> returns \<open>True\<close> if and only if the status code is exactly 200 and the body
  does not contain the failure marker; it then sets the authenticated flag, and in
  every other completed exchange it returns \<open>False\<close> and leaves the object as it was.
\<close>

theorem login_true_iff_200_without_marker:
  "fst (net (fst t) (login_request self)) = Inr r \<Longrightarrow>
     fst (CNC1Auth_login net self t) =
       Inr (status_code r = 200 \<and> \<not> contains failure_marker (resp_text r)) \<and>
     fst (snd (CNC1Auth_login net self t)) =
       (if status_code r = 200 \<and> \<not> contains failure_marker (resp_text r)
        then self\<lparr>priv_is_authenticated := True\<rparr> else self) \<and>
     (fst (CNC1Auth_login net self t) = Inr True \<longrightarrow>
        is_authenticated (fst (snd (CNC1Auth_login net self t))))"
  by (auto simp add: CNC1Auth_login_def send_def is_authenticated_def split: prod.splits sum.splits)

theorem login_true_iff_200_without_marker_witness:
  "fst (CNC1Auth_login
          (\<lambda>w req. (Inr \<lparr>status_code = 200, resp_text = ''welcome'', resp_content = ''welcome''\<rparr>, w))
          (CNC1Auth_init ''user'' ''secret'') ((), 0)) = Inr True \<and>
   is_authenticated (fst (snd (CNC1Auth_login
          (\<lambda>w req. (Inr \<lparr>status_code = 200, resp_text = ''welcome'', resp_content = ''welcome''\<rparr>, w))
          (CNC1Auth_init ''user'' ''secret'') ((), 0))))"
  using login_true_iff_200_without_marker
    [of "\<lambda>w req. (Inr \<lparr>status_code = 200, resp_text = ''welcome'', resp_content = ''welcome''\<rparr>, w)"
      "((), 0)" "CNC1Auth_init ''user'' ''secret''"
      "\<lparr>status_code = 200, resp_text = ''welcome'', resp_content = ''welcome''\<rparr>"]
  by (simp add: failure_marker_def is_authenticated_def)

text \<open>
  C4 as stated fails: a response with status 204 is of the success class and its
  (empty) body has no failure marker, yet \<^verbatim>\<open>login\<close> returns \<open>False\<close> and the session
  stays unauthenticated.
\<close>

theorem login_204_counterexample:
  "spec_success_class \<lparr>status_code = 204, resp_text = '''', resp_content = ''''\<rparr> \<and>
   \<not> contains failure_marker (resp_text \<lparr>status_code = 204, resp_text = '''', resp_content = ''''\<rparr>) \<and>
   CNC1Auth_login (\<lambda>w req. (Inr \<lparr>status_code = 204, resp_text = '''', resp_content = ''''\<rparr>, w))
       (CNC1Auth_init ''user'' ''secret'') ((), 0)
     = (Inr False, CNC1Auth_init ''user'' ''secret'', ((), 1))"
  by (simp add: spec_success_class_def failure_marker_def CNC1Auth_login_def send_def)

text \<open>
  C5. While the session is unauthenticated, \<^verbatim>\<open>get\<close> returns \<open>None\<close> and leaves the
  transport as it was: no request is sent and the counter of requests is unchanged.
  When authenticated it sends exactly one request, a GET for the given URL through
  the session, and returns its outcome.
\<close>

theorem get_unauthenticated_no_request:
  "(\<not> is_authenticated self \<longrightarrow>
      CNC1Auth_get net self url kw t = (Inr None, t) \<and>
      calls (snd (CNC1Auth_get net self url kw t)) = calls t) \<and>
   (is_authenticated self \<longrightarrow>
      calls (snd (CNC1Auth_get net self url kw t)) = Suc (calls t) \<and>
      fst (CNC1Auth_get net self url kw t) =
        map_sum id Some (fst (net (fst t) (get_request url kw))) \<and>
      req_method (get_request url kw) = GET \<and> req_url (get_request url kw) = url \<and>
      req_session (get_request url kw))"
  by (auto simp add: CNC1Auth_get_def is_authenticated_def send_def calls_def get_request_def Let_def
      split: prod.splits sum.splits)

theorem get_unauthenticated_no_request_witness:
  "\<not> is_authenticated (CNC1Auth_init ''user'' ''secret'') \<and>
   CNC1Auth_get site_net (CNC1Auth_init ''user'' ''secret'') ''https://x.test/p1'' no_kwargs ((), 0)
     = (Inr None, ((), 0)) \<and>
   is_authenticated ((CNC1Auth_init ''user'' ''secret'')\<lparr>priv_is_authenticated := True\<rparr>) \<and>
   calls (snd (CNC1Auth_get site_net
      ((CNC1Auth_init ''user'' ''secret'')\<lparr>priv_is_authenticated := True\<rparr>)
      ''https://x.test/p1'' no_kwargs ((), 0))) = Suc (calls ((), 0::nat))"
  using get_unauthenticated_no_request [of "CNC1Auth_init ''user'' ''secret''"
      site_net "''https://x.test/p1''" no_kwargs "((), 0)"]
    get_unauthenticated_no_request
      [of "(CNC1Auth_init ''user'' ''secret'')\<lparr>priv_is_authenticated := True\<rparr>"
      site_net "''https://x.test/p1''" no_kwargs "((), 0)"]
  by (simp add: is_authenticated_def CNC1Auth_init_def)

text \<open>
  C9. Along every sequence of calls of the methods of one auth object, once
  \<^verbatim>\<open>is_authenticated\<close> is true after a prefix of the calls, it is true after every
  longer sequence: no call, a later failed or raising login included, moves the
  session back.
\<close>

theorem authenticated_is_one_way:
  "is_authenticated (fst (auth_calls net cs1 st)) \<Longrightarrow>
   is_authenticated (fst (auth_calls net (cs1 @ cs2) st))"
proof -
  assume a: "is_authenticated (fst (auth_calls net cs1 st))"
  have "auth_calls net (cs1 @ cs2) st = auth_calls net cs2 (auth_calls net cs1 st)"
    by (simp add: auth_calls_def)
  with a show ?thesis by (simp add: auth_calls_keep)
qed

text \<open>The first login succeeds; the second login raises and the fetch fails: still authenticated.\<close>

theorem authenticated_is_one_way_witness:
  "is_authenticated (fst (auth_calls flaky_net [CallLogin] (CNC1Auth_init ''user'' ''secret'', (0, 0)))) \<and>
   is_authenticated (fst (auth_calls flaky_net
      ([CallLogin] @ [CallLogin, CallGet ''https://cnc1.ru/p'' no_kwargs])
      (CNC1Auth_init ''user'' ''secret'', (0, 0))))"
proof -
  have h: "is_authenticated (fst (auth_calls flaky_net [CallLogin] (CNC1Auth_init ''user'' ''secret'', (0, 0))))"
    by (simp add: flaky_first_login is_authenticated_def)
  from h authenticated_is_one_way [OF h] show ?thesis by simp
qed

section \<open>Properties of PageParser\<close>

lemma fst_send: "fst (send net req t) = fst (net (fst t) req)"
  by (simp add: send_def split: prod.splits)

lemma map_of_fold_update_None:
  "map_of (foldl (\<lambda>row col. AList.update col None row) row0 ks) k =
     (if k \<in> set ks then Some None else map_of row0 k)"
  by (induction ks arbitrary: row0) (auto simp add: update_conv')

lemma map_of_empty_row:
  "map_of (empty_row selectors url) k =
     (if k \<in> fst ` set selectors then Some None
      else if k = ''URL'' then Some (Some url) else None)"
  by (simp add: empty_row_def map_of_fold_update_None)


lemma parse_fields_Inl:
  "parse_fields lib soup items row = Inl e \<Longrightarrow>
     \<exists>(col, selector) \<in> set items. lib_select lib soup selector = Inl e"
proof (induction items arbitrary: row)
  case Nil
  then show ?case by simp
next
  case (Cons item items)
  obtain col selector where item: "item = (col, selector)" by (cases item)
  show ?case
  proof (cases "select_one lib soup selector")
    case (Inl e')
    with Cons.prems item have "e' = e" by simp
    with Inl have "lib_select lib soup selector = Inl e"
      by (auto simp add: select_one_def split: sum.splits list.splits)
    then show ?thesis by (auto simp add: item)
  next
    case (Inr element)
    with Cons.prems item Cons.IH show ?thesis by auto
  qed
qed

lemma parse_fields_total:
  "\<forall>(col, selector) \<in> set items. \<forall>e. lib_select lib soup selector \<noteq> Inl e \<Longrightarrow>
     \<exists>row'. parse_fields lib soup items row = Inr row'"
proof (cases "parse_fields lib soup items row")
  case (Inl e)
  assume a: "\<forall>(col, selector) \<in> set items. \<forall>e. lib_select lib soup selector \<noteq> Inl e"
  from parse_fields_Inl [OF Inl] a show ?thesis by blast
next
  case (Inr row')
  then show ?thesis by blast
qed


lemma set_foldl_add_new:
  "set (foldl (\<lambda>cols k. if k \<in> set cols then cols else cols @ [k]) acc ks) = set acc \<union> set ks"
  by (induction ks arbitrary: acc) auto

lemma set_column_union: "set (column_union rows) = (\<Union>r \<in> set rows. fst ` set r)"
  by (simp add: column_union_def set_foldl_add_new)

lemma set_index_DataFrame_Nil: "set_index (DataFrame []) key = Inl KeyError"
  by (simp add: set_index_def DataFrame_def column_union_def)

lemma df_index_set_index_DataFrame:
  assumes "set_index (DataFrame rows) key = Inr df"
  shows "df_index df = map (\<lambda>r. CellLabel (cell_of (map_of r key))) rows"
proof -
  from assms have key: "key \<in> set (column_union rows)"
    by (auto simp add: set_index_def DataFrame_def Let_def split: if_splits)
  then have "\<And>r. map_of (zip (column_union rows) (map (\<lambda>c. cell_of (map_of r c)) (column_union rows))) key
      = Some (cell_of (map_of r key))"
    by (simp add: map_of_zip_map)
  with assms key show ?thesis
    by (auto simp add: set_index_def DataFrame_def Let_def split: if_splits)
qed

lemma set_index_DataFrame_ok:
  assumes "r \<in> set rows" "key \<in> fst ` set r"
  shows "\<exists>df. set_index (DataFrame rows) key = Inr df"
proof -
  from assms have "key \<in> set (column_union rows)"
    by (auto simp add: set_column_union)
  then show ?thesis
    by (simp add: set_index_def DataFrame_def Let_def)
qed

text \<open>
  C10. For the empty URL sequence \<^verbatim>\<open>PageParser.parse\<close> returns no table: no record
  was produced, the frame built from no rows has no \<open>URL\<close> column, and
  \<^verbatim>\<open>set_index('URL')\<close> raises \<^verbatim>\<open>KeyError\<close>, for every library, network, SelectorMap
  and session.
\<close>

theorem parse_empty_urls_KeyError:
  "PageParser_parse lib net (PageParser_init (UrlList []) selectors auth) t =
     (Inl KeyError, PageParser_init (UrlList []) selectors auth, t)"
  by (simp add: PageParser_parse_def PageParser_init_def as_url_list_def
      PageParser_build_dataframe_def set_index_DataFrame_Nil)





lemma parse_fields_keys:
  "parse_fields lib soup items row = Inr row' \<Longrightarrow> fst ` set row \<subseteq> fst ` set row'"
proof (induction items arbitrary: row)
  case Nil
  then show ?case by simp
next
  case (Cons item items)
  obtain col selector where item: "item = (col, selector)" by (cases item)
  from Cons.prems(1) item obtain v where
    rest: "parse_fields lib soup items (AList.update col v row) = Inr row'"
    by (auto split: sum.splits)
  from Cons.IH [OF rest] show ?case by (auto simp add: dom_update)
qed

lemma page_record_has_URL:
  assumes "page_record lib selectors url out = Inr row"
  shows "''URL'' \<in> fst ` set row"
proof (cases "page_record lib selectors url out = Inr (empty_row selectors url)")
  case True
  with assms have "row = empty_row selectors url" by simp
  then have "map_of row ''URL'' \<noteq> None" by (simp add: map_of_empty_row)
  then show ?thesis by (simp add: map_of_eq_None_iff)
next
  case False
  with assms(1) obtain response :: response where
    "parse_fields lib (lib_BeautifulSoup lib (resp_content response)) selectors [(''URL'', Some url)] = Inr row"
    by (auto simp add: page_record_def parsed_row_def split: option.splits if_splits)
  from parse_fields_keys [OF this] show ?thesis by auto
qed














theorem parse_empty_urls_KeyError_witness:
  "PageParser_parse demo_lib site_net
     (PageParser_init (UrlList []) [(''Title'', ''h1''), (''Price'', ''.price'')] None) ((), 0) =
     (Inl KeyError, PageParser_init (UrlList []) [(''Title'', ''h1''), (''Price'', ''.price'')] None, ((), 0))"
  using parse_empty_urls_KeyError [where lib = demo_lib and net = site_net and
      selectors = "[(''Title'', ''h1''), (''Price'', ''.price'')]" and auth = None and t = "((), 0)"]
  by simp



section \<open>Properties of CatalogParser\<close>

lemma extract_links_loop_iff:
  "extract_links_loop lib base_url els acc = Inr links \<longleftrightarrow>
     (\<exists>new. links = acc @ new \<and>
        list_all2 (\<lambda>ref link. lib_urljoin lib base_url ref = Inr link) (link_refs lib els) new)"
proof (induction els arbitrary: acc)
  case Nil
  then show ?case by (auto simp add: link_refs_def)
next
  case (Cons el els)
  have tail: "link_refs lib (el # els) =
      (case lib_get_href lib el of None \<Rightarrow> []
       | Some href \<Rightarrow> if strip href \<noteq> [] then [strip href] else []) @ link_refs lib els"
    by (simp add: link_refs_def)
  show ?case
  proof (cases "lib_get_href lib el")
    case None
    with Cons.IH [of acc] tail show ?thesis by simp
  next
    case (Some href)
    show ?thesis
    proof (cases "strip href = []")
      case True
      with Some Cons.IH [of acc] tail show ?thesis by simp
    next
      case False
      show ?thesis
      proof (cases "lib_urljoin lib base_url (strip href)")
        case (Inl e)
        with False Some tail show ?thesis by (auto simp add: list_all2_Cons1)
      next
        case (Inr u)
        with False Some tail Cons.IH [of "acc @ [u]"] show ?thesis
          by (auto simp add: list_all2_Cons1)
      qed
    qed
  qed
qed

lemma urljoin_relative:
  "urljoin ''https://example.com/a/b'' ''c.html'' = Some (Inr ''https://example.com/a/c.html'')"
  by code_simp

lemma urljoin_rooted:
  "urljoin ''https://example.com/a/b'' ''/x'' = Some (Inr ''https://example.com/x'')"
  by code_simp

lemma urljoin_absolute:
  "urljoin ''https://example.com/a/b'' ''https://other.com/y'' = Some (Inr ''https://other.com/y'')"
  by code_simp

lemma strip_examples:
  "strip ''c.html'' = ''c.html''" "strip '' '' = []" "strip [CHR 0xE2, CHR 0x80, CHR 0x83] = []"
  "strip ''/x'' = ''/x''" "strip ''https://other.com/y'' = ''https://other.com/y''"
  by code_simp+

lemma link_refs_map:
  "link_refs lib elements =
     concat (map (\<lambda>h. case h of None \<Rightarrow> []
                       | Some href \<Rightarrow> if strip href \<noteq> [] then [strip href] else [])
               (map (lib_get_href lib) elements))"
  by (simp add: link_refs_def comp_def)

text \<open>
  C8. \<^verbatim>\<open>_extract_links\<close> returns a list of links exactly when the link selector
  compiles and every reference joins; the links are then, in document order, the
  results of \<^verbatim>\<open>urljoin\<close> of the page's own URL with the stripped \<^verbatim>\<open>href\<close> of each
  matched element, the elements without \<^verbatim>\<open>href\<close> or with one that strips to the empty
  string being skipped. For a page at \<^verbatim>\<open>https://example.com/a/b\<close> whose matched
  elements carry the references \<^verbatim>\<open>c.html\<close>, none, a blank, an em space, \<^verbatim>\<open>/x\<close> and
  \<^verbatim>\<open>https://other.com/y\<close>, and a \<^verbatim>\<open>urljoin\<close> that answers on the three references
  that are left as the model of the standard library does, the links are
  \<^verbatim>\<open>https://example.com/a/c.html\<close>, \<^verbatim>\<open>https://example.com/x\<close> and
  \<^verbatim>\<open>https://other.com/y\<close>. In \<^verbatim>\<open>parse\<close> the base of the resolution is the URL of the
  page as it was requested, and the links are stored under the key of the page.
\<close>

theorem extract_links_resolves:
  "(CatalogParser_extract_links lib self soup base_url = Inr links \<longleftrightarrow>
      (\<exists>elements. lib_select lib soup (cp_link_selector self) = Inr elements \<and>
         list_all2 (\<lambda>ref link. lib_urljoin lib base_url ref = Inr link)
           (link_refs lib elements) links)) \<and>
   ((\<forall>ref \<in> set [''c.html'', ''/x'', ''https://other.com/y''].
       urljoin ''https://example.com/a/b'' ref =
         Some (lib_urljoin lib ''https://example.com/a/b'' ref)) \<longrightarrow>
    lib_select lib soup (cp_link_selector self) = Inr elements \<longrightarrow>
    map (lib_get_href lib) elements =
      [Some ''c.html'', None, Some '' '', Some [CHR 0xE2, CHR 0x80, CHR 0x83],
       Some ''/x'', Some ''https://other.com/y''] \<longrightarrow>
    CatalogParser_extract_links lib self soup ''https://example.com/a/b'' =
      Inr [''https://example.com/a/c.html'', ''https://example.com/x'', ''https://other.com/y'']) \<and>
   (CatalogParser_fetch_page net self url t = (Inr (Some r), t1) \<longrightarrow> status_code r = 200 \<longrightarrow>
    CatalogParser_parse_loop lib net (url # urls) self t =
      (case CatalogParser_extract_links lib self (lib_BeautifulSoup lib (resp_content r)) url of
         Inl e \<Rightarrow> (Some e, self, t1)
       | Inr found \<Rightarrow>
           CatalogParser_parse_loop lib net urls
             (self\<lparr>cp_result :=
                AList.update (CatalogParser_get_page_key lib (lib_BeautifulSoup lib (resp_content r)) url)
                  found (cp_result self)\<rparr>) t1))"
proof (intro conjI impI)
  show "CatalogParser_extract_links lib self soup base_url = Inr links \<longleftrightarrow>
      (\<exists>elements. lib_select lib soup (cp_link_selector self) = Inr elements \<and>
         list_all2 (\<lambda>ref link. lib_urljoin lib base_url ref = Inr link)
           (link_refs lib elements) links)"
    by (cases "lib_select lib soup (cp_link_selector self)")
      (simp_all add: CatalogParser_extract_links_def extract_links_loop_iff)
next
  assume j: "\<forall>ref \<in> set [''c.html'', ''/x'', ''https://other.com/y''].
       urljoin ''https://example.com/a/b'' ref =
         Some (lib_urljoin lib ''https://example.com/a/b'' ref)"
    and s: "lib_select lib soup (cp_link_selector self) = Inr elements"
    and h: "map (lib_get_href lib) elements =
      [Some ''c.html'', None, Some '' '', Some [CHR 0xE2, CHR 0x80, CHR 0x83],
       Some ''/x'', Some ''https://other.com/y'']"
  have refs: "link_refs lib elements = [''c.html'', ''/x'', ''https://other.com/y'']"
    unfolding link_refs_map h by (simp add: strip_examples)
  from j have j1: "lib_urljoin lib ''https://example.com/a/b'' ''c.html'' = Inr ''https://example.com/a/c.html''"
    and j2: "lib_urljoin lib ''https://example.com/a/b'' ''/x'' = Inr ''https://example.com/x''"
    and j3: "lib_urljoin lib ''https://example.com/a/b'' ''https://other.com/y'' = Inr ''https://other.com/y''"
    by (simp_all add: urljoin_relative urljoin_rooted urljoin_absolute)
  have "list_all2 (\<lambda>ref link. lib_urljoin lib ''https://example.com/a/b'' ref = Inr link)
      (link_refs lib elements)
      [''https://example.com/a/c.html'', ''https://example.com/x'', ''https://other.com/y'']"
    unfolding refs by (simp add: j1 j2 j3)
  with s show "CatalogParser_extract_links lib self soup ''https://example.com/a/b'' =
      Inr [''https://example.com/a/c.html'', ''https://example.com/x'', ''https://other.com/y'']"
    by (simp add: CatalogParser_extract_links_def extract_links_loop_iff)
next
  assume "CatalogParser_fetch_page net self url t = (Inr (Some r), t1)" and "status_code r = 200"
  then show "CatalogParser_parse_loop lib net (url # urls) self t =
      (case CatalogParser_extract_links lib self (lib_BeautifulSoup lib (resp_content r)) url of
         Inl e \<Rightarrow> (Some e, self, t1)
       | Inr found \<Rightarrow>
           CatalogParser_parse_loop lib net urls
             (self\<lparr>cp_result :=
                AList.update (CatalogParser_get_page_key lib (lib_BeautifulSoup lib (resp_content r)) url)
                  found (cp_result self)\<rparr>) t1)"
    by (simp add: Let_def)
qed

lemma demo_catalog_links:
  "CatalogParser_extract_links demo_lib
     (CatalogParser_init (OneUrl ''https://example.com/a/b'') ''a'' None)
     (demo_parse catalog_html) ''https://example.com/a/b'' =
      Inr [''https://example.com/a/c.html'', ''https://example.com/x'', ''https://other.com/y'']"
  by code_simp

text \<open>
  The catalog page of the example library has exactly these six anchors, and the
  library joins as the model does.
\<close>

theorem extract_links_resolves_witness:
  "urljoin ''https://example.com/a/b'' ''c.html'' =
     Some (lib_urljoin demo_lib ''https://example.com/a/b'' ''c.html'') \<and>
   urljoin ''https://example.com/a/b'' ''/x'' =
     Some (lib_urljoin demo_lib ''https://example.com/a/b'' ''/x'') \<and>
   urljoin ''https://example.com/a/b'' ''https://other.com/y'' =
     Some (lib_urljoin demo_lib ''https://example.com/a/b'' ''https://other.com/y'') \<and>
   lib_select demo_lib (demo_parse catalog_html)
     (cp_link_selector (CatalogParser_init (OneUrl ''https://example.com/a/b'') ''a'' None)) =
     Inr (demo_parse catalog_html) \<and>
   map (lib_get_href demo_lib) (demo_parse catalog_html) =
      [Some ''c.html'', None, Some '' '', Some [CHR 0xE2, CHR 0x80, CHR 0x83],
       Some ''/x'', Some ''https://other.com/y''] \<and>
   CatalogParser_extract_links demo_lib
     (CatalogParser_init (OneUrl ''https://example.com/a/b'') ''a'' None)
     (demo_parse catalog_html) ''https://example.com/a/b'' =
      Inr [''https://example.com/a/c.html'', ''https://example.com/x'', ''https://other.com/y'']"
proof -
  have a1: "urljoin ''https://example.com/a/b'' ''c.html'' =
     Some (lib_urljoin demo_lib ''https://example.com/a/b'' ''c.html'')"
    by (simp add: demo_lib_def urljoin_relative)
  have a2: "urljoin ''https://example.com/a/b'' ''/x'' =
     Some (lib_urljoin demo_lib ''https://example.com/a/b'' ''/x'')"
    by (simp add: demo_lib_def urljoin_rooted)
  have a3: "urljoin ''https://example.com/a/b'' ''https://other.com/y'' =
     Some (lib_urljoin demo_lib ''https://example.com/a/b'' ''https://other.com/y'')"
    by (simp add: demo_lib_def urljoin_absolute)
  have a: "\<forall>ref \<in> set [''c.html'', ''/x'', ''https://other.com/y''].
       urljoin ''https://example.com/a/b'' ref =
         Some (lib_urljoin demo_lib ''https://example.com/a/b'' ref)"
    using a1 a2 a3 by simp
  have b: "lib_select demo_lib (demo_parse catalog_html)
     (cp_link_selector (CatalogParser_init (OneUrl ''https://example.com/a/b'') ''a'' None)) =
     Inr (demo_parse catalog_html)"
    by code_simp
  have c: "map (lib_get_href demo_lib) (demo_parse catalog_html) =
      [Some ''c.html'', None, Some '' '', Some [CHR 0xE2, CHR 0x80, CHR 0x83],
       Some ''/x'', Some ''https://other.com/y'']"
    by code_simp
  note d = extract_links_resolves [where lib = demo_lib and soup = "demo_parse catalog_html"
      and self = "CatalogParser_init (OneUrl ''https://example.com/a/b'') ''a'' None"
      and elements = "demo_parse catalog_html", THEN conjunct2, THEN conjunct1,
      THEN mp, THEN mp, THEN mp, OF a b c]
  from a1 a2 a3 b c d show ?thesis by (intro conjI)
qed

section \<open>Properties of the two parsers together\<close>

lemma fetch_session_path:
  assumes "session_active auth"
  shows "\<exists>a. auth = Some a \<and> is_authenticated a \<and>
           CNC1Auth_get net a url no_kwargs t =
             (map_sum id Some (fst (net (fst t) (get_request url no_kwargs))),
              snd (send net (get_request url no_kwargs) t))"
proof -
  from assms obtain a where a: "auth = Some a" "is_authenticated a"
    by (auto simp add: session_active_def split: option.splits)
  then have "CNC1Auth_get net a url no_kwargs t =
             (map_sum id Some (fst (net (fst t) (get_request url no_kwargs))),
              snd (send net (get_request url no_kwargs) t))"
    by (simp add: CNC1Auth_get_def is_authenticated_def send_def split: prod.splits sum.splits)
  with a show ?thesis by blast
qed

lemma requests_get_outcome:
  "requests_get net url timeout t =
     (map_sum id Some (fst (net (fst t) (plain_get_request url timeout))),
      snd (send net (plain_get_request url timeout) t))"
  by (simp add: requests_get_def send_def split: prod.splits sum.splits)

lemma CatalogParser_fetch_page_plain:
  assumes "\<not> session_active (cp_auth self)"
  shows "CatalogParser_fetch_page net self url t =
     ((case fst (net (fst t) (plain_get_request url (Some 10))) of
         Inl e \<Rightarrow> if e = RequestException then Inr None else Inl e
       | Inr r \<Rightarrow> Inr (Some r)),
      snd (send net (plain_get_request url (Some 10)) t))"
proof -
  from assms have "CatalogParser_fetch_page net self url t =
      (case requests_get net url (Some 10) t of
         (Inl e, t') \<Rightarrow> if e = RequestException then (Inr None, t') else (Inl e, t')
       | (Inr response, t') \<Rightarrow> (Inr response, t'))"
    by (simp add: CatalogParser_fetch_page_def session_active_def split: option.splits)
  then show ?thesis
    by (simp add: requests_get_outcome split: sum.splits)
qed

lemma PageParser_fetch_page_plain:
  assumes "\<not> session_active (pp_auth self)"
  shows "PageParser_fetch_page net self url t =
     ((case fst (net (fst t) (plain_get_request url None)) of
         Inl e \<Rightarrow> if e = RequestException \<or> e = ValueError then Inr None else Inl e
       | Inr r \<Rightarrow> Inr (Some r)),
      snd (send net (plain_get_request url None) t))"
proof -
  from assms have "PageParser_fetch_page net self url t =
      (case requests_get net url None t of
         (Inl e, t') \<Rightarrow> if e = RequestException \<or> e = ValueError then (Inr None, t') else (Inl e, t')
       | (Inr response, t') \<Rightarrow> (Inr response, t'))"
    by (simp add: PageParser_fetch_page_def session_active_def split: option.splits)
  then show ?thesis
    by (simp add: requests_get_outcome split: sum.splits)
qed

lemma CatalogParser_fetch_page_session:
  assumes "session_active (cp_auth self)"
  shows "CatalogParser_fetch_page net self url t =
     ((case fst (net (fst t) (get_request url no_kwargs)) of
         Inl e \<Rightarrow> if e = RequestException then Inr None else Inl e
       | Inr r \<Rightarrow> Inr (Some r)),
      snd (send net (get_request url no_kwargs) t))"
proof -
  from fetch_session_path [OF assms, of net url t] obtain a where
    a: "cp_auth self = Some a" "is_authenticated a" and
    g: "CNC1Auth_get net a url no_kwargs t =
             (map_sum id Some (fst (net (fst t) (get_request url no_kwargs))),
              snd (send net (get_request url no_kwargs) t))"
    by blast
  from a have "CatalogParser_fetch_page net self url t =
      (case CNC1Auth_get net a url no_kwargs t of
         (Inl e, t') \<Rightarrow> if e = RequestException then (Inr None, t') else (Inl e, t')
       | (Inr response, t') \<Rightarrow> (Inr response, t'))"
    by (simp add: CatalogParser_fetch_page_def)
  then show ?thesis
    by (simp add: g split: sum.splits)
qed

lemma PageParser_fetch_page_session:
  assumes "session_active (pp_auth self)"
  shows "PageParser_fetch_page net self url t =
     ((case fst (net (fst t) (get_request url no_kwargs)) of
         Inl e \<Rightarrow> if e = RequestException \<or> e = ValueError then Inr None else Inl e
       | Inr r \<Rightarrow> Inr (Some r)),
      snd (send net (get_request url no_kwargs) t))"
proof -
  from fetch_session_path [OF assms, of net url t] obtain a where
    a: "pp_auth self = Some a" "is_authenticated a" and
    g: "CNC1Auth_get net a url no_kwargs t =
             (map_sum id Some (fst (net (fst t) (get_request url no_kwargs))),
              snd (send net (get_request url no_kwargs) t))"
    by blast
  from a have "PageParser_fetch_page net self url t =
      (case CNC1Auth_get net a url no_kwargs t of
         (Inl e, t') \<Rightarrow> if e = RequestException \<or> e = ValueError then (Inr None, t') else (Inl e, t')
       | (Inr response, t') \<Rightarrow> (Inr response, t'))"
    by (simp add: PageParser_fetch_page_def)
  then show ?thesis
    by (simp add: g split: sum.splits)
qed

text \<open>
  C2, as amended. Given the same session, \<^verbatim>\<open>CatalogParser._fetch_page\<close> and
  \<^verbatim>\<open>PageParser._fetch_page\<close> make the same choice between the authenticated and the
  plain fetch and ask for the same URL. Through an authenticated session both send the
  same GET; on the plain path \<^verbatim>\<open>CatalogParser\<close> sends a plain GET with a timeout of ten
  seconds and \<^verbatim>\<open>PageParser\<close> a plain GET for the same URL. On either path each of them
  returns the response when the request completes and "unavailable" when it raises a
  request exception. The success criteria are not the same: in its loop
  \<^verbatim>\<open>CatalogParser.parse\<close> counts a fetched page as available exactly when its status is
  200, \<^verbatim>\<open>PageParser.parse\<close> exactly when its status is outside 400 to 599; both store the
  empty entry for a page that is not available or not fetched.
\<close>

theorem fetch_policy_shared:
  assumes "cp_auth cself = pp_auth pself"
  shows
   "(session_active (pp_auth pself) \<longrightarrow>
       (\<forall>r. fst (net (fst t) (get_request url no_kwargs)) = Inr r \<longrightarrow>
          CatalogParser_fetch_page net cself url t =
            (Inr (Some r), snd (send net (get_request url no_kwargs) t)) \<and>
          PageParser_fetch_page net pself url t =
            (Inr (Some r), snd (send net (get_request url no_kwargs) t))) \<and>
       (fst (net (fst t) (get_request url no_kwargs)) = Inl RequestException \<longrightarrow>
          CatalogParser_fetch_page net cself url t =
            (Inr None, snd (send net (get_request url no_kwargs) t)) \<and>
          PageParser_fetch_page net pself url t =
            (Inr None, snd (send net (get_request url no_kwargs) t)))) \<and>
    (\<not> session_active (pp_auth pself) \<longrightarrow>
       (\<forall>r. fst (net (fst t) (plain_get_request url (Some 10))) = Inr r \<longrightarrow>
          CatalogParser_fetch_page net cself url t =
            (Inr (Some r), snd (send net (plain_get_request url (Some 10)) t))) \<and>
       (fst (net (fst t) (plain_get_request url (Some 10))) = Inl RequestException \<longrightarrow>
          CatalogParser_fetch_page net cself url t =
            (Inr None, snd (send net (plain_get_request url (Some 10)) t))) \<and>
       (\<exists>timeout.
          (\<forall>r. fst (net (fst t) (plain_get_request url timeout)) = Inr r \<longrightarrow>
             PageParser_fetch_page net pself url t =
               (Inr (Some r), snd (send net (plain_get_request url timeout) t))) \<and>
          (fst (net (fst t) (plain_get_request url timeout)) = Inl RequestException \<longrightarrow>
             PageParser_fetch_page net pself url t =
               (Inr None, snd (send net (plain_get_request url timeout) t))))) \<and>
    (CatalogParser_fetch_page net cself url t = (Inr out, t1) \<longrightarrow>
       CatalogParser_parse_loop lib net (url # urls) cself t =
         (case out of
            None \<Rightarrow> CatalogParser_parse_loop lib net urls (CatalogParser_add_empty_result cself url) t1
          | Some r \<Rightarrow>
              if status_code r = 200
              then (case CatalogParser_extract_links lib cself
                           (lib_BeautifulSoup lib (resp_content r)) url of
                      Inl e \<Rightarrow> (Some e, cself, t1)
                    | Inr found \<Rightarrow>
                        CatalogParser_parse_loop lib net urls
                          (cself\<lparr>cp_result :=
                             AList.update
                               (CatalogParser_get_page_key lib (lib_BeautifulSoup lib (resp_content r)) url)
                               found (cp_result cself)\<rparr>) t1)
              else CatalogParser_parse_loop lib net urls (CatalogParser_add_empty_result cself url) t1)) \<and>
    (PageParser_fetch_page net pself url t = (Inr out, t1) \<longrightarrow>
       PageParser_parse_loop lib net (url # urls) pself t =
         (case out of
            None \<Rightarrow> PageParser_parse_loop lib net urls (PageParser_add_empty_row pself url) t1
          | Some r \<Rightarrow>
              if 400 \<le> status_code r \<and> status_code r < 600
              then PageParser_parse_loop lib net urls (PageParser_add_empty_row pself url) t1
              else (case PageParser_parse_page lib pself url r of
                      Inl e \<Rightarrow> (Some e, pself, t1)
                    | Inr self' \<Rightarrow> PageParser_parse_loop lib net urls self' t1)))"
proof (intro conjI impI allI)
  fix r
  assume s: "session_active (pp_auth pself)"
    and o: "fst (net (fst t) (get_request url no_kwargs)) = Inr r"
  from s assms have s': "session_active (cp_auth cself)" by simp
  from o show "CatalogParser_fetch_page net cself url t =
      (Inr (Some r), snd (send net (get_request url no_kwargs) t))"
    by (simp add: CatalogParser_fetch_page_session [OF s'])
  from o show "PageParser_fetch_page net pself url t =
      (Inr (Some r), snd (send net (get_request url no_kwargs) t))"
    by (simp add: PageParser_fetch_page_session [OF s])
next
  assume s: "session_active (pp_auth pself)"
    and o: "fst (net (fst t) (get_request url no_kwargs)) = Inl RequestException"
  from s assms have s': "session_active (cp_auth cself)" by simp
  from o show "CatalogParser_fetch_page net cself url t =
      (Inr None, snd (send net (get_request url no_kwargs) t))"
    by (simp add: CatalogParser_fetch_page_session [OF s'])
  from o show "PageParser_fetch_page net pself url t =
      (Inr None, snd (send net (get_request url no_kwargs) t))"
    by (simp add: PageParser_fetch_page_session [OF s])
next
  fix r
  assume s: "\<not> session_active (pp_auth pself)"
    and o: "fst (net (fst t) (plain_get_request url (Some 10))) = Inr r"
  from s assms have s': "\<not> session_active (cp_auth cself)" by simp
  from o show "CatalogParser_fetch_page net cself url t =
      (Inr (Some r), snd (send net (plain_get_request url (Some 10)) t))"
    by (simp add: CatalogParser_fetch_page_plain [OF s'])
next
  assume s: "\<not> session_active (pp_auth pself)"
    and o: "fst (net (fst t) (plain_get_request url (Some 10))) = Inl RequestException"
  from s assms have s': "\<not> session_active (cp_auth cself)" by simp
  from o show "CatalogParser_fetch_page net cself url t =
      (Inr None, snd (send net (plain_get_request url (Some 10)) t))"
    by (simp add: CatalogParser_fetch_page_plain [OF s'])
next
  assume s: "\<not> session_active (pp_auth pself)"
  show "\<exists>timeout.
          (\<forall>r. fst (net (fst t) (plain_get_request url timeout)) = Inr r \<longrightarrow>
             PageParser_fetch_page net pself url t =
               (Inr (Some r), snd (send net (plain_get_request url timeout) t))) \<and>
          (fst (net (fst t) (plain_get_request url timeout)) = Inl RequestException \<longrightarrow>
             PageParser_fetch_page net pself url t =
               (Inr None, snd (send net (plain_get_request url timeout) t)))"
    by (rule exI [of _ None]) (simp add: PageParser_fetch_page_plain [OF s])
next
  assume "CatalogParser_fetch_page net cself url t = (Inr out, t1)"
  then show "CatalogParser_parse_loop lib net (url # urls) cself t =
         (case out of
            None \<Rightarrow> CatalogParser_parse_loop lib net urls (CatalogParser_add_empty_result cself url) t1
          | Some r \<Rightarrow>
              if status_code r = 200
              then (case CatalogParser_extract_links lib cself
                           (lib_BeautifulSoup lib (resp_content r)) url of
                      Inl e \<Rightarrow> (Some e, cself, t1)
                    | Inr found \<Rightarrow>
                        CatalogParser_parse_loop lib net urls
                          (cself\<lparr>cp_result :=
                             AList.update
                               (CatalogParser_get_page_key lib (lib_BeautifulSoup lib (resp_content r)) url)
                               found (cp_result cself)\<rparr>) t1)
              else CatalogParser_parse_loop lib net urls (CatalogParser_add_empty_result cself url) t1)"
    by (cases out) (simp_all add: Let_def)
next
  assume "PageParser_fetch_page net pself url t = (Inr out, t1)"
  then show "PageParser_parse_loop lib net (url # urls) pself t =
         (case out of
            None \<Rightarrow> PageParser_parse_loop lib net urls (PageParser_add_empty_row pself url) t1
          | Some r \<Rightarrow>
              if 400 \<le> status_code r \<and> status_code r < 600
              then PageParser_parse_loop lib net urls (PageParser_add_empty_row pself url) t1
              else (case PageParser_parse_page lib pself url r of
                      Inl e \<Rightarrow> (Some e, pself, t1)
                    | Inr self' \<Rightarrow> PageParser_parse_loop lib net urls self' t1))"
    by (cases out) (simp_all add: ok_def)
qed

text \<open>Both parsers with the same authenticated session fetch the widget page alike.\<close>

theorem fetch_policy_shared_witness:
  "CatalogParser_fetch_page site_net
     (CatalogParser_init (OneUrl ''https://x.test/p1'') ''a''
        (Some ((CNC1Auth_init ''user'' ''secret'')\<lparr>priv_is_authenticated := True\<rparr>)))
     ''https://x.test/p1'' ((), 0) =
     (Inr (Some \<lparr>status_code = 200, resp_text = widget_html, resp_content = widget_html\<rparr>),
      snd (send site_net (get_request ''https://x.test/p1'' no_kwargs) ((), 0))) \<and>
   PageParser_fetch_page site_net
     (PageParser_init (OneUrl ''https://x.test/p1'') [(''Title'', ''h1'')]
        (Some ((CNC1Auth_init ''user'' ''secret'')\<lparr>priv_is_authenticated := True\<rparr>)))
     ''https://x.test/p1'' ((), 0) =
     (Inr (Some \<lparr>status_code = 200, resp_text = widget_html, resp_content = widget_html\<rparr>),
      snd (send site_net (get_request ''https://x.test/p1'' no_kwargs) ((), 0)))"
proof -
  let ?a = "(CNC1Auth_init ''user'' ''secret'')\<lparr>priv_is_authenticated := True\<rparr>"
  let ?c = "CatalogParser_init (OneUrl ''https://x.test/p1'') ''a'' (Some ?a)"
  let ?p = "PageParser_init (OneUrl ''https://x.test/p1'') [(''Title'', ''h1'')] (Some ?a)"
  have h1: "cp_auth ?c = pp_auth ?p"
    by (simp add: CatalogParser_init_def PageParser_init_def)
  have h2: "session_active (pp_auth ?p)"
    by (simp add: PageParser_init_def session_active_def is_authenticated_def)
  have h3: "fst (site_net (fst ((), 0::nat)) (get_request ''https://x.test/p1'' no_kwargs)) =
      Inr \<lparr>status_code = 200, resp_text = widget_html, resp_content = widget_html\<rparr>"
    by (simp add: site_net_def get_request_def)
  show ?thesis
    by (rule fetch_policy_shared [OF h1, where net = site_net and t = "((), 0)"
      and url = "''https://x.test/p1''", THEN conjunct1, THEN mp, OF h2,
      THEN conjunct1, THEN spec, THEN mp, OF h3])
qed

lemma slow_catalog_fetch:
  "fst (CatalogParser_fetch_page slow_net (CatalogParser_init (OneUrl ''https://x.test/p1'') ''a'' None)
     ''https://x.test/p1'' ((), 0)) = Inr None"
  by code_simp

lemma slow_page_fetch:
  "fst (PageParser_fetch_page slow_net
     (PageParser_init (OneUrl ''https://x.test/p1'') [(''Title'', ''h1'')] None)
     ''https://x.test/p1'' ((), 0)) =
     Inr (Some \<lparr>status_code = 200, resp_text = widget_html, resp_content = widget_html\<rparr>)"
  by code_simp

lemma no_content_catalog:
  "fst (CatalogParser_parse demo_lib site_net
     (CatalogParser_init (OneUrl ''https://x.test/p4'') ''h1'' None) ((), 0)) =
     Inr [(''https://x.test/p4'', [])]"
  by code_simp

lemma no_content_page:
  "pp_data (fst (snd (PageParser_parse demo_lib site_net
     (PageParser_init (OneUrl ''https://x.test/p4'') [(''Title'', ''h1'')] None) ((), 0)))) =
     [[(''URL'', Some ''https://x.test/p4''), (''Title'', Some ''Widget'')]]"
  by code_simp

lemma value_error_catalog:
  "fst (CatalogParser_fetch_page site_net (CatalogParser_init (OneUrl ''https://x.test/bad'') ''a'' None)
     ''https://x.test/bad'' ((), 0)) = Inl ValueError"
  by code_simp

lemma value_error_page:
  "fst (PageParser_fetch_page site_net
     (PageParser_init (OneUrl ''https://x.test/bad'') [(''Title'', ''h1'')] None)
     ''https://x.test/bad'' ((), 0)) = Inr None"
  by code_simp

text \<open>
  C2 as stated fails. Against a server that needs more than the timeout,
  \<^verbatim>\<open>CatalogParser\<close> gets "unavailable" where \<^verbatim>\<open>PageParser\<close>, which passes no timeout,
  gets the page; a page answered with status 204 is unavailable for
  \<^verbatim>\<open>CatalogParser\<close> (an empty list under the URL) and available for \<^verbatim>\<open>PageParser\<close>
  (the heading is extracted); and a request that raises a \<^verbatim>\<open>ValueError\<close> leaves
  \<^verbatim>\<open>CatalogParser._fetch_page\<close> as an exception where \<^verbatim>\<open>PageParser._fetch_page\<close>
  returns "unavailable".
\<close>

theorem fetch_policy_counterexample:
  "fst (CatalogParser_fetch_page slow_net (CatalogParser_init (OneUrl ''https://x.test/p1'') ''a'' None)
     ''https://x.test/p1'' ((), 0)) = Inr None \<and>
   fst (PageParser_fetch_page slow_net
     (PageParser_init (OneUrl ''https://x.test/p1'') [(''Title'', ''h1'')] None)
     ''https://x.test/p1'' ((), 0)) =
     Inr (Some \<lparr>status_code = 200, resp_text = widget_html, resp_content = widget_html\<rparr>) \<and>
   fst (CatalogParser_parse demo_lib site_net
     (CatalogParser_init (OneUrl ''https://x.test/p4'') ''h1'' None) ((), 0)) =
     Inr [(''https://x.test/p4'', [])] \<and>
   pp_data (fst (snd (PageParser_parse demo_lib site_net
     (PageParser_init (OneUrl ''https://x.test/p4'') [(''Title'', ''h1'')] None) ((), 0)))) =
     [[(''URL'', Some ''https://x.test/p4''), (''Title'', Some ''Widget'')]] \<and>
   fst (CatalogParser_fetch_page site_net (CatalogParser_init (OneUrl ''https://x.test/bad'') ''a'' None)
     ''https://x.test/bad'' ((), 0)) = Inl ValueError \<and>
   fst (PageParser_fetch_page site_net
     (PageParser_init (OneUrl ''https://x.test/bad'') [(''Title'', ''h1'')] None)
     ''https://x.test/bad'' ((), 0)) = Inr None"
  using slow_catalog_fetch slow_page_fetch no_content_catalog no_content_page
    value_error_catalog value_error_page
  by (intro conjI)

lemma empty_urls_page:
  "fst (PageParser_parse demo_lib site_net
     (PageParser_init (UrlList []) [(''Title'', ''h1''), (''Price'', ''.price'')] None) ((), 0))
     = Inl KeyError"
  by code_simp

lemma empty_urls_catalog:
  "fst (CatalogParser_parse demo_lib site_net (CatalogParser_init (UrlList []) ''a'' None) ((), 0))
     = Inr []"
  by code_simp

lemma value_error_aborts_catalog:
  "CatalogParser_parse demo_lib site_net
     (CatalogParser_init (UrlList [''https://x.test/bad'', ''https://x.test/p1'']) ''h1'' None) ((), 0)
     = (Inl ValueError,
        CatalogParser_init (UrlList [''https://x.test/bad'', ''https://x.test/p1'']) ''h1'' None,
        ((), 1))"
  by code_simp

lemma value_error_spares_page:
  "fst (PageParser_parse demo_lib site_net
     (PageParser_init (UrlList [''https://x.test/bad'', ''https://x.test/p1''])
        [(''Title'', ''h1'')] None) ((), 0))
     = Inr \<lparr>df_index_name = Some ''URL'',
             df_index = [CellLabel (Str ''https://x.test/bad''), CellLabel (Str ''https://x.test/p1'')],
             df_columns = [''Title''],
             df_values = [[PyNone], [Str ''Widget'']]\<rparr>"
  by code_simp

lemma malformed_link_aborts_catalog:
  "CatalogParser_parse demo_lib site_net
     (CatalogParser_init (UrlList [''https://x.test/p5'', ''https://x.test/p1'']) ''a'' None) ((), 0)
     = (Inl ValueError,
        CatalogParser_init (UrlList [''https://x.test/p5'', ''https://x.test/p1'']) ''a'' None,
        ((), 1))"
  by code_simp

text \<open>
  C1. The code does not do what the claim says. For the empty URL sequence
  \<^verbatim>\<open>PageParser.parse\<close> raises \<^verbatim>\<open>KeyError\<close> and returns no table, where
  \<^verbatim>\<open>CatalogParser.parse\<close> returns the empty mapping. When the fetch of the first of two
  URLs raises a \<^verbatim>\<open>ValueError\<close> that is no request exception,
  \<^verbatim>\<open>CatalogParser.parse\<close> raises it after one request and the second URL is never
  fetched, where \<^verbatim>\<open>PageParser.parse\<close> returns a table with the null record for the
  first URL and the record of the second. A fetched page with a malformed link aborts
  \<^verbatim>\<open>CatalogParser.parse\<close> in the same way.
\<close>

theorem parse_aborts_on_failing_inputs:
  "fst (PageParser_parse demo_lib site_net
     (PageParser_init (UrlList []) [(''Title'', ''h1''), (''Price'', ''.price'')] None) ((), 0))
     = Inl KeyError \<and>
   fst (CatalogParser_parse demo_lib site_net (CatalogParser_init (UrlList []) ''a'' None) ((), 0))
     = Inr [] \<and>
   CatalogParser_parse demo_lib site_net
     (CatalogParser_init (UrlList [''https://x.test/bad'', ''https://x.test/p1'']) ''h1'' None) ((), 0)
     = (Inl ValueError,
        CatalogParser_init (UrlList [''https://x.test/bad'', ''https://x.test/p1'']) ''h1'' None,
        ((), 1)) \<and>
   fst (PageParser_parse demo_lib site_net
     (PageParser_init (UrlList [''https://x.test/bad'', ''https://x.test/p1''])
        [(''Title'', ''h1'')] None) ((), 0))
     = Inr \<lparr>df_index_name = Some ''URL'',
             df_index = [CellLabel (Str ''https://x.test/bad''), CellLabel (Str ''https://x.test/p1'')],
             df_columns = [''Title''],
             df_values = [[PyNone], [Str ''Widget'']]\<rparr> \<and>
   CatalogParser_parse demo_lib site_net
     (CatalogParser_init (UrlList [''https://x.test/p5'', ''https://x.test/p1'']) ''a'' None) ((), 0)
     = (Inl ValueError,
        CatalogParser_init (UrlList [''https://x.test/p5'', ''https://x.test/p1'']) ''a'' None,
        ((), 1))"
  using empty_urls_page empty_urls_catalog value_error_aborts_catalog value_error_spares_page
    malformed_link_aborts_catalog
  by (intro conjI)

end
